theory Spec2Isabelle
  imports Main
begin

section \<open>Data model of the Telegram presentation layer\<close>

text \<open>
  Go strings are byte sequences, so message text is a \<open>string\<close> (a list of 8-bit
  characters).  A \<open>tg.Message\<close> is kept with the two fields the router reads.
\<close>

record tg_Message =
  Post :: bool
  Message :: string

text \<open>
  \<open>update.GetMessage()\<close> yields a \<open>tg.MessageClass\<close>; the type assertion
  \<open>.(*tg.Message)\<close> succeeds on the \<open>MessageC\<close> shape only.
\<close>

datatype MessageClass = MessageEmpty | MessageC tg_Message | MessageService

datatype update = UpdateNewMessage MessageClass | UpdateNewChannelMessage MessageClass

fun GetMessage :: "update \<Rightarrow> MessageClass" where
  "GetMessage (UpdateNewMessage mc) = mc"
| "GetMessage (UpdateNewChannelMessage mc) = mc"

datatype Context = Background | Ctx nat

datatype Entities = Entities nat

text \<open>
  Errors: the package's own \<open>BadUpdate\<close>, values made by \<open>errors.New\<close>, the result of
  \<open>errors.Join\<close>, and errors that come back from collaborators.
\<close>

datatype error = BadUpdate | ErrorsNew string | JoinError "error list" | External nat

subsection \<open>The observable trace: log calls and handler invocations\<close>

datatype level = Debug | Info | Warn | Error

datatype field =
    Str string string
  | Dur string int
  | Interface string tg_Message
  | Err error
  | Stack

datatype callee = SpamReactionMessageHandler | CommandHandler string

datatype event =
    Log level "field list"
  | Invoke callee Context Entities update tg_Message

text \<open>
  The handlers' bodies lie outside the router; each one is a function on the outside
  world \<open>'w\<close> that returns \<open>nil\<close> (\<open>None\<close>) or an error.  In the source they are
  methods of \<open>Presentation\<close>; what a handler may do to the \<open>Presentation\<close> itself is
  not part of this type, and no statement below is about it.
\<close>

type_synonym 'w commandProcessor =
  "Context \<Rightarrow> Entities \<Rightarrow> update \<Rightarrow> tg_Message \<Rightarrow> 'w \<Rightarrow> error option \<times> 'w"

record 'w Presentation =
  commandHandler :: "string \<rightharpoonup> 'w commandProcessor"

record 'w state =
  presentation :: "'w Presentation"
  world :: 'w
  events :: "event list"

section \<open>Whitespace tokenisation: \<open>strings.Fields\<close>\<close>

definition RuneError :: nat where
  "RuneError = 0xFFFD"

definition inrange :: "nat \<Rightarrow> nat \<Rightarrow> char \<Rightarrow> bool" where
  "inrange lo hi c = (lo \<le> of_char c \<and> of_char c \<le> hi)"

text \<open>\<open>utf8.DecodeRuneInString\<close>: the rune at the head of the bytes and its width.\<close>

fun DecodeRuneInString :: "string \<Rightarrow> nat \<times> nat" where
  "DecodeRuneInString [] = (RuneError, 0)"
| "DecodeRuneInString (c0 # s) =
     (let s0 = (of_char c0 :: nat) in
      if s0 < 0x80 then (s0, 1)
      else if s0 < 0xC2 then (RuneError, 1)
      else if s0 < 0xE0 then
        (case s of
           c1 # _ \<Rightarrow>
             if inrange 0x80 0xBF c1
             then ((s0 mod 0x20) * 0x40 + of_char c1 mod 0x40, 2)
             else (RuneError, 1)
         | _ \<Rightarrow> (RuneError, 1))
      else if s0 < 0xF0 then
        (case s of
           c1 # c2 # _ \<Rightarrow>
             if \<not> inrange (if s0 = 0xE0 then 0xA0 else 0x80)
                          (if s0 = 0xED then 0x9F else 0xBF) c1 then (RuneError, 1)
             else if \<not> inrange 0x80 0xBF c2 then (RuneError, 1)
             else ((s0 mod 0x10) * 0x1000 + (of_char c1 mod 0x40) * 0x40
                     + of_char c2 mod 0x40, 3)
         | _ \<Rightarrow> (RuneError, 1))
      else if s0 < 0xF5 then
        (case s of
           c1 # c2 # c3 # _ \<Rightarrow>
             if \<not> inrange (if s0 = 0xF0 then 0x90 else 0x80)
                          (if s0 = 0xF4 then 0x8F else 0xBF) c1 then (RuneError, 1)
             else if \<not> inrange 0x80 0xBF c2 then (RuneError, 1)
             else if \<not> inrange 0x80 0xBF c3 then (RuneError, 1)
             else ((s0 mod 0x08) * 0x40000 + (of_char c1 mod 0x40) * 0x1000
                     + (of_char c2 mod 0x40) * 0x40 + of_char c3 mod 0x40, 4)
         | _ \<Rightarrow> (RuneError, 1))
      else (RuneError, 1))"

text \<open>\<open>unicode.IsSpace\<close>: the Latin-1 switch, then the \<open>White_Space\<close> table.\<close>

definition IsSpace :: "nat \<Rightarrow> bool" where
  "IsSpace r =
     (if r \<le> 0xFF then r \<in> {0x09, 0x0A, 0x0B, 0x0C, 0x0D, 0x20, 0x85, 0xA0}
      else r = 0x1680 \<or> (0x2000 \<le> r \<and> r \<le> 0x200A) \<or> r = 0x2028 \<or> r = 0x2029
           \<or> r = 0x202F \<or> r = 0x205F \<or> r = 0x3000)"

text \<open>
  \<open>strings.FieldsFunc\<close>: the loop over the runes of the text.  \<open>cur\<close> is the span
  that is open (\<open>start >= 0\<close> in the source), \<open>None\<close> when no span is open.
\<close>

fun FieldsFunc :: "(nat \<Rightarrow> bool) \<Rightarrow> string option \<Rightarrow> string \<Rightarrow> string list" where
  "FieldsFunc f cur [] = (case cur of None \<Rightarrow> [] | Some t \<Rightarrow> [t])"
| "FieldsFunc f cur (c # s) =
     (let (r, n) = DecodeRuneInString (c # s) in
      if f r then
        (case cur of
           None \<Rightarrow> FieldsFunc f None (drop (n - 1) s)
         | Some t \<Rightarrow> t # FieldsFunc f None (drop (n - 1) s))
      else
        FieldsFunc f (Some ((case cur of None \<Rightarrow> [] | Some t \<Rightarrow> t) @ c # take (n - 1) s))
          (drop (n - 1) s))"

definition Fields :: "string \<Rightarrow> string list" where
  "Fields s = FieldsFunc IsSpace None s"

section \<open>Collaborators\<close>

text \<open>
  Times are nanosecond counts.  \<open>Time.Sub\<close> saturates at the bounds of a 64-bit
  \<open>Duration\<close>.
\<close>

definition Sub :: "int \<Rightarrow> int \<Rightarrow> int" where
  "Sub t u = max (- (2 ^ 63)) (min (2 ^ 63 - 1) (t - u))"

text \<open>
  \<open>auth.Status\<close>, as far as \<open>login\<close> reads it.
\<close>

record Status =
  Authorized :: bool

text \<open>
  A Go call either returns or panics.
\<close>

datatype 'a outcome = Returns 'a | Panics

text \<open>
  The methods and library calls whose bodies are outside this file: the five handler
  methods of \<open>Presentation\<close>, the clock, the transport's authentication and send
  operations, and the three blocking runners of the transport.  \<open>Auth_Status\<close>
  returns a pointer (\<open>None\<close> is \<open>nil\<close>) and an error.
\<close>

record 'w collaborators =
  pingCommandHandler :: "'w commandProcessor"
  helpCommandHandler :: "'w commandProcessor"
  getMeCommandHandler :: "'w commandProcessor"
  spamReactionCommandHandler :: "'w commandProcessor"
  spamReactionMessageHandler :: "'w commandProcessor"
  time_Now :: "'w \<Rightarrow> int"
  Auth_Status :: "Context \<Rightarrow> 'w \<Rightarrow> (Status option \<times> error option) \<times> 'w"
  Auth_IfNecessary :: "Context \<Rightarrow> 'w \<Rightarrow> error option \<times> 'w"
  Self_Text :: "Context \<Rightarrow> string \<Rightarrow> 'w \<Rightarrow> error option \<times> 'w"
  RunUntilCanceled ::
    "Context \<Rightarrow> (update \<Rightarrow> Context \<Rightarrow> Entities \<Rightarrow> 'w state \<Rightarrow> error option \<times> 'w state)
       \<Rightarrow> 'w state \<Rightarrow> error option \<times> 'w state"
  client_Run ::
    "Context \<Rightarrow> (Context \<Rightarrow> 'w state \<Rightarrow> error option outcome \<times> 'w state)
       \<Rightarrow> 'w state \<Rightarrow> error option outcome \<times> 'w state"
  waiter_Run ::
    "Context \<Rightarrow> (Context \<Rightarrow> 'w state \<Rightarrow> error option outcome \<times> 'w state)
       \<Rightarrow> 'w state \<Rightarrow> error option outcome \<times> 'w state"

section \<open>Construction\<close>

text \<open>
  \<open>MustNewTelegramPresentation\<close> fills the command table with four method values.
\<close>

definition MustNewTelegramPresentation :: "'w collaborators \<Rightarrow> 'w Presentation" where
  "MustNewTelegramPresentation x =
     \<lparr>commandHandler =
        [''ping'' \<mapsto> pingCommandHandler x,
         ''help'' \<mapsto> helpCommandHandler x,
         ''getMe'' \<mapsto> getMeCommandHandler x,
         ''spamReaction'' \<mapsto> spamReactionCommandHandler x]\<rparr>"

section \<open>Dispatch: \<open>routeMessage\<close>\<close>

definition commandPrefix :: char where
  "commandPrefix = CHR ''!''"

definition emit :: "event \<Rightarrow> 'w state \<Rightarrow> 'w state" where
  "emit e s = s\<lparr>events := events s @ [e]\<rparr>"

text \<open>
  Calling a handler: the call is recorded, then the handler acts on the world.
\<close>

definition call ::
  "callee \<Rightarrow> 'w commandProcessor \<Rightarrow> Context \<Rightarrow> Entities \<Rightarrow> update \<Rightarrow> tg_Message
     \<Rightarrow> 'w state \<Rightarrow> error option \<times> 'w state" where
  "call name h ctx entities upd m s =
     (let (err, w) = h ctx entities upd m (world s)
      in (err, (emit (Invoke name ctx entities upd m) s)\<lparr>world := w\<rparr>))"

definition routeMessage ::
  "'w collaborators \<Rightarrow> Context \<Rightarrow> Entities \<Rightarrow> update \<Rightarrow> 'w state
     \<Rightarrow> error option \<times> 'w state" where
  "routeMessage x ctx entities upd s =
     (case GetMessage upd of
        MessageC m \<Rightarrow>
          (if Post m then (None, s)
           else
             let s1 = emit (Log Debug [Str ''status'' ''message.got'',
                                       Str ''text'' (Message m),
                                       Interface ''message'' m]) s;
                 fields = Fields (Message m)
             in
             if length fields = 0 then (None, s1)
             else
               let (err, s2) = call SpamReactionMessageHandler (spamReactionMessageHandler x)
                                 ctx entities upd m s1
               in
               (case err of
                  Some e \<Rightarrow> (Some e, s2)
                | None \<Rightarrow>
                    let firstMessage = fields ! 0 in
                    if length firstMessage < 1 then (None, s2)
                    else if firstMessage ! 0 \<noteq> commandPrefix then (None, s2)
                    else
                      let command = drop 1 firstMessage in
                      (case commandHandler (presentation s2) command of
                         None \<Rightarrow>
                           (None, emit (Log Warn [Str ''status'' ''unknown.command'',
                                                  Str ''command'' command,
                                                  Str ''text'' (Message m)]) s2)
                       | Some handler \<Rightarrow>
                           let s3 = emit (Log Info [Str ''status'' ''command.got'',
                                                    Str ''command'' command]) s2;
                               t0 = time_Now x (world s3);
                               (err, s4) = call (CommandHandler command) handler
                                             ctx entities upd m s3
                           in
                           (case err of
                              Some e \<Rightarrow> (Some e, s4)
                            | None \<Rightarrow>
                                (None, emit (Log Info [Str ''status'' ''ok'',
                                                       Dur ''dur''
                                                         (Sub (time_Now x (world s4)) t0)])
                                         s4)))))
      | _ \<Rightarrow> (Some BadUpdate, s))"

section \<open>Authentication: \<open>login\<close>\<close>

text \<open>
  \<open>status.Authorized\<close> dereferences the pointer that \<open>Status\<close> returned: a \<open>nil\<close>
  pointer panics.  When the session is authorised already, \<open>err\<close> is still the error
  that \<open>Status\<close> returned.
\<close>

definition login ::
  "'w collaborators \<Rightarrow> Context \<Rightarrow> 'w state \<Rightarrow> error option outcome \<times> 'w state" where
  "login x ctx s =
     (let ((status, err), w1) = Auth_Status x ctx (world s);
          s1 = s\<lparr>world := w1\<rparr>
      in
      case status of
        None \<Rightarrow> (Panics, s1)
      | Some st \<Rightarrow>
          let (err, s2) =
                (if \<not> Authorized st then
                   let s1a = emit (Log Info [Str ''status'' ''authorizing'']) s1;
                       (err, w2) = Auth_IfNecessary x ctx (world s1a)
                   in (err, s1a\<lparr>world := w2\<rparr>)
                 else (err, s1))
          in
          (case err of
             Some e \<Rightarrow>
               (Returns (Some (JoinError [e, ErrorsNew ''error while authenticating''])), s2)
           | None \<Rightarrow>
               let (err, w3) = Self_Text x ctx ''Telegram client initialized'' (world s2);
                   s3 = s2\<lparr>world := w3\<rparr>
               in
               (case err of
                  Some e \<Rightarrow> (Returns (Some e), s3)
                | None \<Rightarrow> (Returns None, s3))))"

section \<open>The session: \<open>Run\<close>\<close>

text \<open>
  The two subscription callbacks have the same body: dispatch, log an error with its
  stack, and return what dispatch returned.
\<close>

definition OnNewChannelMessage ::
  "'w collaborators \<Rightarrow> Context \<Rightarrow> Entities \<Rightarrow> update \<Rightarrow> 'w state
     \<Rightarrow> error option \<times> 'w state" where
  "OnNewChannelMessage x ctx entities upd s =
     (let (err, s1) = routeMessage x ctx entities upd s in
      case err of
        Some e \<Rightarrow>
          (err, emit (Log Error [Stack, Err e,
                                 Str ''status'' ''error.while.processing.request'']) s1)
      | None \<Rightarrow> (err, s1))"

definition OnNewMessage ::
  "'w collaborators \<Rightarrow> Context \<Rightarrow> Entities \<Rightarrow> update \<Rightarrow> 'w state
     \<Rightarrow> error option \<times> 'w state" where
  "OnNewMessage x ctx entities upd s =
     (let (err, s1) = routeMessage x ctx entities upd s in
      case err of
        Some e \<Rightarrow>
          (err, emit (Log Error [Stack, Err e,
                                 Str ''status'' ''error.while.processing.request'']) s1)
      | None \<Rightarrow> (err, s1))"

text \<open>
  The update dispatcher after both registrations: each update kind goes to its callback.
\<close>

fun telegramDispatcher ::
  "'w collaborators \<Rightarrow> update \<Rightarrow> Context \<Rightarrow> Entities \<Rightarrow> 'w state
     \<Rightarrow> error option \<times> 'w state" where
  "telegramDispatcher x (UpdateNewChannelMessage mc) ctx entities s =
     OnNewChannelMessage x ctx entities (UpdateNewChannelMessage mc) s"
| "telegramDispatcher x (UpdateNewMessage mc) ctx entities s =
     OnNewMessage x ctx entities (UpdateNewMessage mc) s"

text \<open>
  The function that \<open>Run\<close> hands to the client: log in, subscribe, block in the
  transport's loop.
\<close>

definition Run_session ::
  "'w collaborators \<Rightarrow> Context \<Rightarrow> 'w state \<Rightarrow> error option outcome \<times> 'w state" where
  "Run_session x ctx s =
     (case login x ctx s of
        (Panics, s1) \<Rightarrow> (Panics, s1)
      | (Returns (Some e), s1) \<Rightarrow> (Returns (Some e), s1)
      | (Returns None, s1) \<Rightarrow>
          let (err, s2) = RunUntilCanceled x Background (telegramDispatcher x) s1 in
          (case err of
             Some e \<Rightarrow> (Returns (Some e), s2)
           | None \<Rightarrow> (Returns None, s2)))"

definition Run :: "'w collaborators \<Rightarrow> 'w state \<Rightarrow> error option outcome \<times> 'w state" where
  "Run x s =
     waiter_Run x Background (\<lambda>ctx. client_Run x ctx (\<lambda>ctx. Run_session x ctx)) s"

text \<open>
  The command handlers that a trace shows as invoked.
\<close>

fun is_command_call :: "event \<Rightarrow> bool" where
  "is_command_call (Invoke (CommandHandler _) _ _ _ _) = True"
| "is_command_call _ = False"

definition command_calls :: "event list \<Rightarrow> event list" where
  "command_calls evs = filter is_command_call evs"

section \<open>A concrete session for evaluation\<close>

text \<open>
  The world is a counter that every collaborator moves by its own amount; the clock
  reads a millisecond per unit.
\<close>

definition demo :: "nat collaborators" where
  "demo =
     \<lparr>pingCommandHandler = (\<lambda>_ _ _ _ w. (None, w + 1)),
      helpCommandHandler = (\<lambda>_ _ _ _ w. (None, w + 2)),
      getMeCommandHandler = (\<lambda>_ _ _ _ w. (Some (External 3), w + 3)),
      spamReactionCommandHandler = (\<lambda>_ _ _ _ w. (None, w + 4)),
      spamReactionMessageHandler = (\<lambda>_ _ _ _ w. (None, w + 10)),
      time_Now = (\<lambda>w. int w * 1000000),
      Auth_Status = (\<lambda>_ w. ((Some \<lparr>Authorized = False\<rparr>, None), w)),
      Auth_IfNecessary = (\<lambda>_ w. (None, w + 100)),
      Self_Text = (\<lambda>_ _ w. (None, w + 1000)),
      RunUntilCanceled =
        (\<lambda>c cb s. cb (UpdateNewMessage (MessageC \<lparr>Post = False, Message = ''!ping''\<rparr>))
                    c (Entities 0) s),
      client_Run = (\<lambda>c f s. f c s),
      waiter_Run = (\<lambda>c f s. f c s)\<rparr>"

definition demo_state :: "nat state" where
  "demo_state = \<lparr>presentation = MustNewTelegramPresentation demo, world = 0, events = []\<rparr>"

definition text_update :: "string \<Rightarrow> update" where
  "text_update txt = UpdateNewMessage (MessageC \<lparr>Post = False, Message = txt\<rparr>)"

definition demo_send_fails :: "nat collaborators" where
  "demo_send_fails = demo\<lparr>Self_Text := (\<lambda>_ _ w. (Some (External 7), w + 1000))\<rparr>"

definition demo_spam_fails :: "nat collaborators" where
  "demo_spam_fails =
     demo\<lparr>spamReactionMessageHandler := (\<lambda>_ _ _ _ w. (Some (External 5), w + 10))\<rparr>"

section \<open>Evaluation of the tokeniser\<close>

lemma Fields_blank: "Fields ''   '' = []"
  by (simp add: Fields_def IsSpace_def)

lemma Fields_ping: "Fields ''!ping now'' = [''!ping'', ''now'']"
  by (simp add: Fields_def IsSpace_def)

lemma Fields_getMe: "Fields ''!getMe'' = [''!getMe'']"
  by (simp add: Fields_def IsSpace_def)

lemma Fields_pong: "Fields ''!pong 1'' = [''!pong'', ''1'']"
  by (simp add: Fields_def IsSpace_def)

lemma Fields_bare: "Fields ''! x'' = [''!'', ''x'']"
  by (simp add: Fields_def IsSpace_def)

lemma Fields_hello: "Fields ''hello world'' = [''hello'', ''world'']"
  by (simp add: Fields_def IsSpace_def)

section \<open>Dispatch of one update\<close>

text \<open>
  C7.  An update whose message is a channel post is dropped: dispatch returns \<open>nil\<close>
  at once and leaves the state as it was, so no handler runs and nothing is logged.
\<close>

theorem routeMessage_channel_post:
  assumes "GetMessage upd = MessageC m" and "Post m"
  shows "routeMessage x ctx entities upd s = (None, s)"
  using assms by (simp add: routeMessage_def)

theorem routeMessage_channel_post_witness:
  "GetMessage (UpdateNewChannelMessage (MessageC \<lparr>Post = True, Message = ''!ping now''\<rparr>))
     = MessageC \<lparr>Post = True, Message = ''!ping now''\<rparr>
   \<and> Post \<lparr>Post = True, Message = ''!ping now''\<rparr>
   \<and> routeMessage demo (Ctx 1) (Entities 2)
        (UpdateNewChannelMessage (MessageC \<lparr>Post = True, Message = ''!ping now''\<rparr>))
        demo_state
      = (None, demo_state)"
  using routeMessage_channel_post
    [of "UpdateNewChannelMessage (MessageC \<lparr>Post = True, Message = ''!ping now''\<rparr>)"
        "\<lparr>Post = True, Message = ''!ping now''\<rparr>" demo "Ctx 1" "Entities 2" demo_state]
  by simp

text \<open>
  C1, as the code has it.  For a message that is not a post and whose text has no
  whitespace token, dispatch returns \<open>nil\<close> after the debug log entry alone: neither
  the spam-reaction handler nor a command handler runs, and the world is untouched.
\<close>

theorem routeMessage_zero_tokens:
  assumes "GetMessage upd = MessageC m" and "\<not> Post m" and "Fields (Message m) = []"
  shows "routeMessage x ctx entities upd s =
           (None,
            s\<lparr>events := events s @
                 [Log Debug [Str ''status'' ''message.got'', Str ''text'' (Message m),
                             Interface ''message'' m]]\<rparr>)"
  using assms by (simp add: routeMessage_def emit_def)

theorem routeMessage_zero_tokens_witness:
  "GetMessage (text_update ''   '') = MessageC \<lparr>Post = False, Message = ''   ''\<rparr>
   \<and> \<not> Post \<lparr>Post = False, Message = ''   ''\<rparr>
   \<and> Fields (Message \<lparr>Post = False, Message = ''   ''\<rparr>) = []
   \<and> routeMessage demo (Ctx 1) (Entities 2) (text_update ''   '') demo_state
      = (None,
         \<lparr>presentation = MustNewTelegramPresentation demo, world = 0,
          events = [Log Debug [Str ''status'' ''message.got'', Str ''text'' ''   '',
                               Interface ''message'' \<lparr>Post = False, Message = ''   ''\<rparr>]]\<rparr>)"
proof -
  have h1: "GetMessage (text_update ''   '') = MessageC \<lparr>Post = False, Message = ''   ''\<rparr>"
    by (simp add: text_update_def)
  have h2: "\<not> Post \<lparr>Post = False, Message = ''   ''\<rparr>"
    by simp
  have h3: "Fields (Message \<lparr>Post = False, Message = ''   ''\<rparr>) = []"
    by (simp add: Fields_blank)
  show ?thesis
    using h1 h2 h3
      routeMessage_zero_tokens [OF h1 h2 h3, of demo "Ctx 1" "Entities 2" demo_state]
    by (simp add: demo_state_def)
qed

text \<open>
  C1, as the claim states it, fails on the text of three blanks: dispatch returns
  \<open>nil\<close>, but the trace holds no invocation of the spam-reaction handler and the world
  is still 0, where a run of that handler would have left 10.
\<close>

theorem routeMessage_zero_tokens_counterexample:
  "fst (routeMessage demo (Ctx 1) (Entities 2) (text_update ''   '') demo_state) = None
   \<and> Invoke SpamReactionMessageHandler (Ctx 1) (Entities 2) (text_update ''   '')
        \<lparr>Post = False, Message = ''   ''\<rparr>
      \<notin> set (events (snd (routeMessage demo (Ctx 1) (Entities 2) (text_update ''   '')
                             demo_state)))
   \<and> world (snd (routeMessage demo (Ctx 1) (Entities 2) (text_update ''   '') demo_state)) = 0
   \<and> snd (spamReactionMessageHandler demo (Ctx 1) (Entities 2) (text_update ''   '')
             \<lparr>Post = False, Message = ''   ''\<rparr> 0) = 10"
  by (simp add: routeMessage_def text_update_def emit_def demo_state_def Fields_blank demo_def)

text \<open>
  C4.  For a message that is not a post and has at least one token, the first things
  dispatch does are the debug log entry and the call of the spam-reaction handler,
  whatever the first token is; when that handler returns an error, dispatch returns
  this error right after the call, and no command handler is invoked.
\<close>

theorem routeMessage_spam_handler_first:
  assumes "GetMessage upd = MessageC m"
    and "\<not> Post m"
    and "Fields (Message m) \<noteq> []"
  shows "(\<exists>rest. events (snd (routeMessage x ctx entities upd s)) =
            events s @
              [Log Debug [Str ''status'' ''message.got'', Str ''text'' (Message m),
                          Interface ''message'' m],
               Invoke SpamReactionMessageHandler ctx entities upd m] @ rest)
       \<and> (\<forall>e w1. spamReactionMessageHandler x ctx entities upd m (world s) = (Some e, w1) \<longrightarrow>
            routeMessage x ctx entities upd s =
              (Some e,
               s\<lparr>world := w1,
                  events := events s @
                    [Log Debug [Str ''status'' ''message.got'', Str ''text'' (Message m),
                                Interface ''message'' m],
                     Invoke SpamReactionMessageHandler ctx entities upd m]\<rparr>)
            \<and> command_calls (events (snd (routeMessage x ctx entities upd s)))
                = command_calls (events s))"
  using assms
  by (auto simp add: routeMessage_def call_def emit_def Let_def command_calls_def
      split: option.splits prod.splits)

theorem routeMessage_spam_handler_first_witness:
  "GetMessage (text_update ''!ping now'') = MessageC \<lparr>Post = False, Message = ''!ping now''\<rparr>
   \<and> \<not> Post \<lparr>Post = False, Message = ''!ping now''\<rparr>
   \<and> Fields (Message \<lparr>Post = False, Message = ''!ping now''\<rparr>) \<noteq> []
   \<and> spamReactionMessageHandler demo_spam_fails (Ctx 1) (Entities 2)
        (text_update ''!ping now'') \<lparr>Post = False, Message = ''!ping now''\<rparr> 0
      = (Some (External 5), 10)
   \<and> routeMessage demo_spam_fails (Ctx 1) (Entities 2) (text_update ''!ping now'') demo_state
      = (Some (External 5),
         \<lparr>presentation = MustNewTelegramPresentation demo, world = 10,
          events =
            [Log Debug [Str ''status'' ''message.got'', Str ''text'' ''!ping now'',
                        Interface ''message'' \<lparr>Post = False, Message = ''!ping now''\<rparr>],
             Invoke SpamReactionMessageHandler (Ctx 1) (Entities 2)
               (text_update ''!ping now'') \<lparr>Post = False, Message = ''!ping now''\<rparr>]\<rparr>)"
proof -
  have h1: "GetMessage (text_update ''!ping now'')
              = MessageC \<lparr>Post = False, Message = ''!ping now''\<rparr>"
    by (simp add: text_update_def)
  have h2: "\<not> Post \<lparr>Post = False, Message = ''!ping now''\<rparr>"
    by simp
  have h3: "Fields (Message \<lparr>Post = False, Message = ''!ping now''\<rparr>) \<noteq> []"
    by (simp add: Fields_ping)
  have h4: "spamReactionMessageHandler demo_spam_fails (Ctx 1) (Entities 2)
              (text_update ''!ping now'') \<lparr>Post = False, Message = ''!ping now''\<rparr>
              (world demo_state)
            = (Some (External 5), 10)"
    by (simp add: demo_spam_fails_def demo_def demo_state_def)
  have r: "routeMessage demo_spam_fails (Ctx 1) (Entities 2) (text_update ''!ping now'')
             demo_state
           = (Some (External 5),
              demo_state\<lparr>world := 10,
                events := events demo_state @
                  [Log Debug [Str ''status'' ''message.got'',
                              Str ''text'' (Message \<lparr>Post = False, Message = ''!ping now''\<rparr>),
                              Interface ''message'' \<lparr>Post = False, Message = ''!ping now''\<rparr>],
                   Invoke SpamReactionMessageHandler (Ctx 1) (Entities 2)
                     (text_update ''!ping now'')
                     \<lparr>Post = False, Message = ''!ping now''\<rparr>]\<rparr>)"
    using routeMessage_spam_handler_first
      [OF h1 h2 h3, of demo_spam_fails "Ctx 1" "Entities 2" demo_state] h4
    by blast
  show ?thesis
    using h1 h2 h3 h4 r by (simp add: demo_state_def)
qed

text \<open>
  C5.  When the first token is \<open>!\<close> followed by a registered name \<open>c\<close> and the
  spam-reaction handler succeeds, dispatch calls the handler registered for \<open>c\<close> once,
  with the context, the entities, the update and the whole message, on the world the
  spam-reaction handler left.  Dispatch returns what the handler returns; on success
  the last log entry carries the time that passed over the handler's run.
\<close>

theorem routeMessage_known_command:
  assumes "GetMessage upd = MessageC m"
    and "\<not> Post m"
    and "Fields (Message m) = (CHR ''!'' # c) # rest"
    and "commandHandler (presentation s) c = Some handler"
    and "spamReactionMessageHandler x ctx entities upd m (world s) = (None, w1)"
    and "handler ctx entities upd m w1 = (res, w2)"
  shows "routeMessage x ctx entities upd s =
           (res,
            s\<lparr>world := w2,
               events := events s @
                 [Log Debug [Str ''status'' ''message.got'', Str ''text'' (Message m),
                             Interface ''message'' m],
                  Invoke SpamReactionMessageHandler ctx entities upd m,
                  Log Info [Str ''status'' ''command.got'', Str ''command'' c],
                  Invoke (CommandHandler c) ctx entities upd m] @
                 (case res of
                    None \<Rightarrow> [Log Info [Str ''status'' ''ok'',
                                        Dur ''dur'' (Sub (time_Now x w2) (time_Now x w1))]]
                  | Some e \<Rightarrow> [])\<rparr>)
       \<and> command_calls (drop (length (events s))
                            (events (snd (routeMessage x ctx entities upd s))))
           = [Invoke (CommandHandler c) ctx entities upd m]"
  using assms
  by (auto simp add: routeMessage_def call_def emit_def Let_def command_calls_def
      commandPrefix_def split: option.splits prod.splits)

theorem routeMessage_known_command_witness:
  "GetMessage (text_update ''!ping now'') = MessageC \<lparr>Post = False, Message = ''!ping now''\<rparr>
   \<and> \<not> Post \<lparr>Post = False, Message = ''!ping now''\<rparr>
   \<and> Fields (Message \<lparr>Post = False, Message = ''!ping now''\<rparr>)
        = (CHR ''!'' # ''ping'') # [''now'']
   \<and> commandHandler (presentation demo_state) ''ping'' = Some (pingCommandHandler demo)
   \<and> spamReactionMessageHandler demo (Ctx 1) (Entities 2) (text_update ''!ping now'')
        \<lparr>Post = False, Message = ''!ping now''\<rparr> (world demo_state) = (None, 10)
   \<and> pingCommandHandler demo (Ctx 1) (Entities 2) (text_update ''!ping now'')
        \<lparr>Post = False, Message = ''!ping now''\<rparr> 10 = (None, 11)
   \<and> routeMessage demo (Ctx 1) (Entities 2) (text_update ''!ping now'') demo_state
      = (None,
         \<lparr>presentation = MustNewTelegramPresentation demo, world = 11,
          events =
            [Log Debug [Str ''status'' ''message.got'', Str ''text'' ''!ping now'',
                        Interface ''message'' \<lparr>Post = False, Message = ''!ping now''\<rparr>],
             Invoke SpamReactionMessageHandler (Ctx 1) (Entities 2)
               (text_update ''!ping now'') \<lparr>Post = False, Message = ''!ping now''\<rparr>,
             Log Info [Str ''status'' ''command.got'', Str ''command'' ''ping''],
             Invoke (CommandHandler ''ping'') (Ctx 1) (Entities 2)
               (text_update ''!ping now'') \<lparr>Post = False, Message = ''!ping now''\<rparr>,
             Log Info [Str ''status'' ''ok'', Dur ''dur'' 1000000]]\<rparr>)"
proof -
  have h1: "GetMessage (text_update ''!ping now'')
              = MessageC \<lparr>Post = False, Message = ''!ping now''\<rparr>"
    by (simp add: text_update_def)
  have h2: "\<not> Post \<lparr>Post = False, Message = ''!ping now''\<rparr>"
    by simp
  have h3: "Fields (Message \<lparr>Post = False, Message = ''!ping now''\<rparr>)
              = (CHR ''!'' # ''ping'') # [''now'']"
    by (simp add: Fields_ping)
  have h4: "commandHandler (presentation demo_state) ''ping'' = Some (pingCommandHandler demo)"
    by (simp add: demo_state_def MustNewTelegramPresentation_def)
  have h5: "spamReactionMessageHandler demo (Ctx 1) (Entities 2) (text_update ''!ping now'')
              \<lparr>Post = False, Message = ''!ping now''\<rparr> (world demo_state) = (None, 10)"
    by (simp add: demo_def demo_state_def)
  have h6: "pingCommandHandler demo (Ctx 1) (Entities 2) (text_update ''!ping now'')
              \<lparr>Post = False, Message = ''!ping now''\<rparr> 10 = (None, 11)"
    by (simp add: demo_def)
  have t: "Sub (time_Now demo 11) (time_Now demo 10) = 1000000"
    by (simp add: demo_def Sub_def)
  show ?thesis
    using h1 h2 h3 h4 h5 h6 t routeMessage_known_command [OF h1 h2 h3 h4 h5 h6]
    by (simp add: demo_state_def)
qed

text \<open>
  C6.  When the first token is \<open>!\<close> followed by a name that the table does not hold and
  the spam-reaction handler succeeds, dispatch logs a warning with the name and the
  original text and returns \<open>nil\<close>.
\<close>

theorem routeMessage_unknown_command:
  assumes "GetMessage upd = MessageC m"
    and "\<not> Post m"
    and "Fields (Message m) = (CHR ''!'' # name) # rest"
    and "commandHandler (presentation s) name = None"
    and "spamReactionMessageHandler x ctx entities upd m (world s) = (None, w1)"
  shows "routeMessage x ctx entities upd s =
           (None,
            s\<lparr>world := w1,
               events := events s @
                 [Log Debug [Str ''status'' ''message.got'', Str ''text'' (Message m),
                             Interface ''message'' m],
                  Invoke SpamReactionMessageHandler ctx entities upd m,
                  Log Warn [Str ''status'' ''unknown.command'', Str ''command'' name,
                            Str ''text'' (Message m)]]\<rparr>)"
  using assms
  by (simp add: routeMessage_def call_def emit_def Let_def commandPrefix_def)

theorem routeMessage_unknown_command_witness:
  "GetMessage (text_update ''!pong 1'') = MessageC \<lparr>Post = False, Message = ''!pong 1''\<rparr>
   \<and> \<not> Post \<lparr>Post = False, Message = ''!pong 1''\<rparr>
   \<and> Fields (Message \<lparr>Post = False, Message = ''!pong 1''\<rparr>) = (CHR ''!'' # ''pong'') # [''1'']
   \<and> commandHandler (presentation demo_state) ''pong'' = None
   \<and> spamReactionMessageHandler demo (Ctx 1) (Entities 2) (text_update ''!pong 1'')
        \<lparr>Post = False, Message = ''!pong 1''\<rparr> (world demo_state) = (None, 10)
   \<and> routeMessage demo (Ctx 1) (Entities 2) (text_update ''!pong 1'') demo_state
      = (None,
         \<lparr>presentation = MustNewTelegramPresentation demo, world = 10,
          events =
            [Log Debug [Str ''status'' ''message.got'', Str ''text'' ''!pong 1'',
                        Interface ''message'' \<lparr>Post = False, Message = ''!pong 1''\<rparr>],
             Invoke SpamReactionMessageHandler (Ctx 1) (Entities 2)
               (text_update ''!pong 1'') \<lparr>Post = False, Message = ''!pong 1''\<rparr>,
             Log Warn [Str ''status'' ''unknown.command'', Str ''command'' ''pong'',
                       Str ''text'' ''!pong 1'']]\<rparr>)"
proof -
  have h1: "GetMessage (text_update ''!pong 1'')
              = MessageC \<lparr>Post = False, Message = ''!pong 1''\<rparr>"
    by (simp add: text_update_def)
  have h2: "\<not> Post \<lparr>Post = False, Message = ''!pong 1''\<rparr>"
    by simp
  have h3: "Fields (Message \<lparr>Post = False, Message = ''!pong 1''\<rparr>)
              = (CHR ''!'' # ''pong'') # [''1'']"
    by (simp add: Fields_pong)
  have h4: "commandHandler (presentation demo_state) ''pong'' = None"
    by (simp add: demo_state_def MustNewTelegramPresentation_def)
  have h5: "spamReactionMessageHandler demo (Ctx 1) (Entities 2) (text_update ''!pong 1'')
              \<lparr>Post = False, Message = ''!pong 1''\<rparr> (world demo_state) = (None, 10)"
    by (simp add: demo_def demo_state_def)
  show ?thesis
    using h1 h2 h3 h4 h5 routeMessage_unknown_command [OF h1 h2 h3 h4 h5]
    by (simp add: demo_state_def)
qed

text \<open>
  C8.  When the first token does not start with \<open>!\<close> and the spam-reaction handler
  succeeds, dispatch returns \<open>nil\<close> right after that handler: no command handler is
  invoked.
\<close>

theorem routeMessage_no_prefix:
  assumes "GetMessage upd = MessageC m"
    and "\<not> Post m"
    and "Fields (Message m) = tok # rest"
    and "\<not> (\<exists>t. tok = CHR ''!'' # t)"
    and "spamReactionMessageHandler x ctx entities upd m (world s) = (None, w1)"
  shows "routeMessage x ctx entities upd s =
           (None,
            s\<lparr>world := w1,
               events := events s @
                 [Log Debug [Str ''status'' ''message.got'', Str ''text'' (Message m),
                             Interface ''message'' m],
                  Invoke SpamReactionMessageHandler ctx entities upd m]\<rparr>)
       \<and> command_calls (events (snd (routeMessage x ctx entities upd s)))
           = command_calls (events s)"
  using assms
  by (cases tok)
     (auto simp add: routeMessage_def call_def emit_def Let_def commandPrefix_def
        command_calls_def)

theorem routeMessage_no_prefix_witness:
  "GetMessage (text_update ''hello world'')
     = MessageC \<lparr>Post = False, Message = ''hello world''\<rparr>
   \<and> \<not> Post \<lparr>Post = False, Message = ''hello world''\<rparr>
   \<and> Fields (Message \<lparr>Post = False, Message = ''hello world''\<rparr>) = ''hello'' # [''world'']
   \<and> \<not> (\<exists>t. ''hello'' = CHR ''!'' # t)
   \<and> spamReactionMessageHandler demo (Ctx 1) (Entities 2) (text_update ''hello world'')
        \<lparr>Post = False, Message = ''hello world''\<rparr> (world demo_state) = (None, 10)
   \<and> routeMessage demo (Ctx 1) (Entities 2) (text_update ''hello world'') demo_state
      = (None,
         \<lparr>presentation = MustNewTelegramPresentation demo, world = 10,
          events =
            [Log Debug [Str ''status'' ''message.got'', Str ''text'' ''hello world'',
                        Interface ''message'' \<lparr>Post = False, Message = ''hello world''\<rparr>],
             Invoke SpamReactionMessageHandler (Ctx 1) (Entities 2)
               (text_update ''hello world'')
               \<lparr>Post = False, Message = ''hello world''\<rparr>]\<rparr>)"
proof -
  have h1: "GetMessage (text_update ''hello world'')
              = MessageC \<lparr>Post = False, Message = ''hello world''\<rparr>"
    by (simp add: text_update_def)
  have h2: "\<not> Post \<lparr>Post = False, Message = ''hello world''\<rparr>"
    by simp
  have h3: "Fields (Message \<lparr>Post = False, Message = ''hello world''\<rparr>)
              = ''hello'' # [''world'']"
    by (simp add: Fields_hello)
  have h4: "\<not> (\<exists>t. ''hello'' = CHR ''!'' # t)"
    by simp
  have h5: "spamReactionMessageHandler demo (Ctx 1) (Entities 2) (text_update ''hello world'')
              \<lparr>Post = False, Message = ''hello world''\<rparr> (world demo_state) = (None, 10)"
    by (simp add: demo_def demo_state_def)
  show ?thesis
    using h1 h2 h3 h4 h5 routeMessage_no_prefix [OF h1 h2 h3 h4 h5]
    by (simp add: demo_state_def)
qed

text \<open>
  C10.  A first token that is \<open>!\<close> alone gives the empty command name; the table that
  construction built has no entry for it, so dispatch logs the unknown-command warning
  with the empty name and returns \<open>nil\<close>.
\<close>

theorem routeMessage_bare_prefix:
  assumes "GetMessage upd = MessageC m"
    and "\<not> Post m"
    and "Fields (Message m) = ''!'' # rest"
    and "presentation s = MustNewTelegramPresentation x"
    and "spamReactionMessageHandler x ctx entities upd m (world s) = (None, w1)"
  shows "routeMessage x ctx entities upd s =
           (None,
            s\<lparr>world := w1,
               events := events s @
                 [Log Debug [Str ''status'' ''message.got'', Str ''text'' (Message m),
                             Interface ''message'' m],
                  Invoke SpamReactionMessageHandler ctx entities upd m,
                  Log Warn [Str ''status'' ''unknown.command'', Str ''command'' [],
                            Str ''text'' (Message m)]]\<rparr>)"
  using assms
  by (simp add: routeMessage_def call_def emit_def Let_def commandPrefix_def
      MustNewTelegramPresentation_def)

theorem routeMessage_bare_prefix_witness:
  "GetMessage (text_update ''! x'') = MessageC \<lparr>Post = False, Message = ''! x''\<rparr>
   \<and> \<not> Post \<lparr>Post = False, Message = ''! x''\<rparr>
   \<and> Fields (Message \<lparr>Post = False, Message = ''! x''\<rparr>) = ''!'' # [''x'']
   \<and> presentation demo_state = MustNewTelegramPresentation demo
   \<and> spamReactionMessageHandler demo (Ctx 1) (Entities 2) (text_update ''! x'')
        \<lparr>Post = False, Message = ''! x''\<rparr> (world demo_state) = (None, 10)
   \<and> routeMessage demo (Ctx 1) (Entities 2) (text_update ''! x'') demo_state
      = (None,
         \<lparr>presentation = MustNewTelegramPresentation demo, world = 10,
          events =
            [Log Debug [Str ''status'' ''message.got'', Str ''text'' ''! x'',
                        Interface ''message'' \<lparr>Post = False, Message = ''! x''\<rparr>],
             Invoke SpamReactionMessageHandler (Ctx 1) (Entities 2)
               (text_update ''! x'') \<lparr>Post = False, Message = ''! x''\<rparr>,
             Log Warn [Str ''status'' ''unknown.command'', Str ''command'' [],
                       Str ''text'' ''! x'']]\<rparr>)"
proof -
  have h1: "GetMessage (text_update ''! x'') = MessageC \<lparr>Post = False, Message = ''! x''\<rparr>"
    by (simp add: text_update_def)
  have h2: "\<not> Post \<lparr>Post = False, Message = ''! x''\<rparr>"
    by simp
  have h3: "Fields (Message \<lparr>Post = False, Message = ''! x''\<rparr>) = ''!'' # [''x'']"
    by (simp add: Fields_bare)
  have h4: "presentation demo_state = MustNewTelegramPresentation demo"
    by (simp add: demo_state_def)
  have h5: "spamReactionMessageHandler demo (Ctx 1) (Entities 2) (text_update ''! x'')
              \<lparr>Post = False, Message = ''! x''\<rparr> (world demo_state) = (None, 10)"
    by (simp add: demo_def demo_state_def)
  show ?thesis
    using h1 h2 h3 h4 h5 routeMessage_bare_prefix [OF h1 h2 h3 h4 h5]
    by (simp add: demo_state_def)
qed

section \<open>Authentication\<close>

text \<open>
  C2, as the code has it.  When the status query yields a status, the authentication
  flow ends without error, and the confirmation send to the own identity fails with an
  error \<open>e\<close>, then \<open>login\<close> returns \<open>e\<close> itself, without the wrapping that a flow error
  gets, and the session function of \<open>Run\<close> returns the same result in the same state:
  it does not reach the subscriptions or the transport's loop.
\<close>

theorem login_confirmation_failure:
  assumes "Auth_Status x ctx (world s) = ((Some st, err0), w1)"
    and "(if Authorized st then (err0, w1) else Auth_IfNecessary x ctx w1) = (None, w2)"
    and "Self_Text x ctx ''Telegram client initialized'' w2 = (Some e, w3)"
  shows "login x ctx s =
           (Returns (Some e),
            s\<lparr>world := w3,
               events := events s @
                 (if Authorized st then [] else [Log Info [Str ''status'' ''authorizing'']])\<rparr>)
       \<and> Run_session x ctx s = login x ctx s"
  using assms
  by (auto simp add: login_def Run_session_def emit_def Let_def split: if_splits)

theorem login_confirmation_failure_witness:
  "Auth_Status demo_send_fails (Ctx 1) (world demo_state)
     = ((Some \<lparr>Authorized = False\<rparr>, None), 0)
   \<and> (if Authorized \<lparr>Authorized = False\<rparr> then (None, 0)
       else Auth_IfNecessary demo_send_fails (Ctx 1) 0) = (None, 100)
   \<and> Self_Text demo_send_fails (Ctx 1) ''Telegram client initialized'' 100
       = (Some (External 7), 1100)
   \<and> login demo_send_fails (Ctx 1) demo_state
       = (Returns (Some (External 7)),
          \<lparr>presentation = MustNewTelegramPresentation demo, world = 1100,
           events = [Log Info [Str ''status'' ''authorizing'']]\<rparr>)
   \<and> Run_session demo_send_fails (Ctx 1) demo_state
       = (Returns (Some (External 7)),
          \<lparr>presentation = MustNewTelegramPresentation demo, world = 1100,
           events = [Log Info [Str ''status'' ''authorizing'']]\<rparr>)"
proof -
  have h1: "Auth_Status demo_send_fails (Ctx 1) (world demo_state)
              = ((Some \<lparr>Authorized = False\<rparr>, None), 0)"
    by (simp add: demo_send_fails_def demo_def demo_state_def)
  have h2: "(if Authorized \<lparr>Authorized = False\<rparr> then (None, 0)
             else Auth_IfNecessary demo_send_fails (Ctx 1) 0) = (None, 100)"
    by (simp add: demo_send_fails_def demo_def)
  have h3: "Self_Text demo_send_fails (Ctx 1) ''Telegram client initialized'' 100
              = (Some (External 7), 1100)"
    by (simp add: demo_send_fails_def demo_def)
  show ?thesis
    using h1 h2 h3 login_confirmation_failure [OF h1 h2 h3]
    by (simp add: demo_state_def)
qed

text \<open>
  C2, as the claim states it, fails where the flow succeeds and the send fails with
  \<open>External 7\<close>: \<open>login\<close> returns this error, and so does \<open>Run\<close> on a transport whose
  runners return what their function returns.
\<close>

theorem login_confirmation_failure_counterexample:
  "Auth_IfNecessary demo_send_fails (Ctx 1) 0 = (None, 100)
   \<and> Self_Text demo_send_fails (Ctx 1) ''Telegram client initialized'' 100
       = (Some (External 7), 1100)
   \<and> fst (login demo_send_fails (Ctx 1) demo_state) = Returns (Some (External 7))
   \<and> fst (Run demo_send_fails demo_state) = Returns (Some (External 7))"
  by (simp add: login_def Run_def Run_session_def emit_def demo_send_fails_def demo_def
      demo_state_def)

section \<open>The registration table at construction\<close>

text \<open>
  What \<open>MustNewTelegramPresentation\<close> stores: four names, each bound to its handler
  method, and no other name.  The handlers are methods of the same \<open>Presentation\<close> and
  their bodies are outside this file, so nothing is stated here about the table after a
  handler or one of the transport's runners has run.
\<close>

lemma MustNewTelegramPresentation_table:
  "dom (commandHandler (MustNewTelegramPresentation x))
     = {''ping'', ''help'', ''getMe'', ''spamReaction''}"
  by (auto simp add: MustNewTelegramPresentation_def)

lemma MustNewTelegramPresentation_entries:
  "commandHandler (MustNewTelegramPresentation x) ''ping'' = Some (pingCommandHandler x)"
  "commandHandler (MustNewTelegramPresentation x) ''help'' = Some (helpCommandHandler x)"
  "commandHandler (MustNewTelegramPresentation x) ''getMe'' = Some (getMeCommandHandler x)"
  "commandHandler (MustNewTelegramPresentation x) ''spamReaction''
     = Some (spamReactionCommandHandler x)"
  by (simp_all add: MustNewTelegramPresentation_def)

section \<open>The subscription callbacks\<close>

text \<open>
  What a callback does with an error of dispatch: it appends one error-level entry with
  the stack and the error, and hands the same error back to the dispatcher of the
  transport.  What the transport's loop does with that error lies outside this file.
\<close>

lemma OnNewMessage_error:
  assumes "routeMessage x ctx entities upd s = (Some e, s1)"
  shows "OnNewMessage x ctx entities upd s =
           (Some e,
            s1\<lparr>events := events s1 @
                  [Log Error [Stack, Err e,
                              Str ''status'' ''error.while.processing.request'']]\<rparr>)"
  using assms by (simp add: OnNewMessage_def emit_def)

lemma OnNewChannelMessage_error:
  assumes "routeMessage x ctx entities upd s = (Some e, s1)"
  shows "OnNewChannelMessage x ctx entities upd s =
           (Some e,
            s1\<lparr>events := events s1 @
                  [Log Error [Stack, Err e,
                              Str ''status'' ''error.while.processing.request'']]\<rparr>)"
  using assms by (simp add: OnNewChannelMessage_def emit_def)

end
